theory Spec2Isabelle
  imports Complex_Main "HOL-Library.AList"
begin

section \<open>The feature downloader of \<^verbatim>\<open>tools/get_features.py\<close>\<close>

text \<open>
  The module has two functions that matter: \<^verbatim>\<open>get_features\<close> queries the remote
  catalog page by page and assembles a table and a dmdt array, and
  \<^verbatim>\<open>get_features_loop\<close> calls a fetch function chunk by chunk and writes one
  segment file per chunk. Both are embedded below as they are written: Python
  exceptions are values of \<open>error\<close>, local variables that may be unbound are options,
  the \<^verbatim>\<open>while True\<close> loop is a partial function into \<open>option\<close>, and the files of the
  output directory and the printed lines are passed as explicit state.
\<close>

subsection \<open>Python values\<close>

datatype error = ValueError | UnboundLocalError | ZeroDivisionError | KeyError

text \<open>
  A value of a catalog record. Scalars are carried as integers: the identifiers are
  integers, and the feature values are only stored and copied by this code.
  \<open>NaN\<close> is what pandas puts where a record has no value for a column.
\<close>

datatype cell = Num int | NaN | Arr "cell list"

type_synonym row = "(string \<times> cell) list"

text \<open>A \<^verbatim>\<open>DataFrame\<close> built from records: its rows; a column exists when a row has it.\<close>

type_synonym table = "row list"

datatype jvalue = JNull | JStr string | JRows "row list"

type_synonym response = "(string \<times> jvalue) list"

type_synonym projection = "(string \<times> int) list"

record query =
  catalog :: string
  ids_in :: "int list"
  projection_of :: projection

text \<open>\<^verbatim>\<open>xs[a:b]\<close> for Python integers: a negative bound counts from the end, both are clamped.\<close>

definition py_slice :: "'a list \<Rightarrow> int \<Rightarrow> int \<Rightarrow> 'a list" where
  "py_slice xs a b =
     (let n = int (length xs);
          lo = (if a < 0 then max 0 (a + n) else min a n);
          hi = (if b < 0 then max 0 (b + n) else min b n)
      in take (nat (hi - lo)) (drop (nat lo) xs))"

text \<open>\<^verbatim>\<open>d.get(k, default)\<close> on a dictionary kept as an association list.\<close>

definition dict_get :: "(string \<times> 'v) list \<Rightarrow> string \<Rightarrow> 'v \<Rightarrow> 'v" where
  "dict_get d k dflt = (case map_of d k of None \<Rightarrow> dflt | Some v \<Rightarrow> v)"

subsection \<open>\<^verbatim>\<open>str\<close> of an integer\<close>

definition digit_char :: "nat \<Rightarrow> char" where
  "digit_char d =
     (if d = 0 then CHR ''0'' else if d = 1 then CHR ''1'' else if d = 2 then CHR ''2''
      else if d = 3 then CHR ''3'' else if d = 4 then CHR ''4'' else if d = 5 then CHR ''5''
      else if d = 6 then CHR ''6'' else if d = 7 then CHR ''7'' else if d = 8 then CHR ''8''
      else CHR ''9'')"

fun str_nat :: "nat \<Rightarrow> string" where
  "str_nat n = (if n < 10 then [digit_char n] else str_nat (n div 10) @ [digit_char (n mod 10)])"

declare str_nat.simps [simp del]

definition str_int :: "int \<Rightarrow> string" where
  "str_int i = (if i < 0 then CHR ''-'' # str_nat (nat (- i)) else str_nat (nat i))"

text \<open>\<^verbatim>\<open>s.zfill(2)\<close>; a string shorter than two characters has no sign.\<close>

definition zfill2 :: "string \<Rightarrow> string" where
  "zfill2 s = replicate (2 - length s) CHR ''0'' @ s"

subsection \<open>The numpy and pandas operations the code calls\<close>

text \<open>
  An array is its shape and its elements in row-major order. The Python list \<^verbatim>\<open>[]\<close>,
  which numpy reads as an array of shape \<open>(0,)\<close>, is \<open>empty_list\<close>.
\<close>

record ndarray =
  shape :: "nat list"
  flat :: "cell list"

definition empty_list :: ndarray where
  "empty_list = \<lparr>shape = [0], flat = []\<rparr>"

text \<open>The leading dimension \<^verbatim>\<open>a.shape[0]\<close>.\<close>

definition leading :: "ndarray \<Rightarrow> nat" where
  "leading a = (case shape a of [] \<Rightarrow> 0 | n # _ \<Rightarrow> n)"

text \<open>
  The shape numpy finds for a nested list, \<open>None\<close> when the list is ragged.
  \<^verbatim>\<open>np.array\<close> raises \<^verbatim>\<open>ValueError\<close> on a ragged list (numpy 1.24 and later).
\<close>

fun cell_shape :: "cell \<Rightarrow> nat list option" where
  "cell_shape (Num _) = Some []"
| "cell_shape NaN = Some []"
| "cell_shape (Arr cs) =
     (case map cell_shape cs of
        [] \<Rightarrow> Some [0]
      | None # _ \<Rightarrow> None
      | Some s # ss \<Rightarrow> (if list_all (\<lambda>t. t = Some s) ss then Some (Suc (length ss) # s) else None))"

fun cell_flat :: "cell \<Rightarrow> cell list" where
  "cell_flat (Num v) = [Num v]"
| "cell_flat NaN = [NaN]"
| "cell_flat (Arr cs) = concat (map cell_flat cs)"

definition np_array :: "cell list \<Rightarrow> error + ndarray" where
  "np_array cs =
     (case cell_shape (Arr cs) of
        None \<Rightarrow> Inl ValueError
      | Some s \<Rightarrow> Inr \<lparr>shape = s, flat = cell_flat (Arr cs)\<rparr>)"

text \<open>\<^verbatim>\<open>np.expand_dims(a, axis=-1)\<close>.\<close>

definition expand_dims_last :: "ndarray \<Rightarrow> ndarray" where
  "expand_dims_last a = a\<lparr>shape := shape a @ [1]\<rparr>"

definition atleast_2d :: "ndarray \<Rightarrow> ndarray" where
  "atleast_2d a =
     (case shape a of
        [] \<Rightarrow> a\<lparr>shape := [1, 1]\<rparr>
      | [n] \<Rightarrow> a\<lparr>shape := [1, n]\<rparr>
      | _ \<Rightarrow> a)"

text \<open>
  \<^verbatim>\<open>np.vstack\<close>: every array is made at least two-dimensional, then they are
  concatenated along the first axis, which needs one common shape behind it.
\<close>

definition vstack :: "ndarray list \<Rightarrow> error + ndarray" where
  "vstack arrs =
     (case map atleast_2d arrs of
        [] \<Rightarrow> Inl ValueError
      | a # as \<Rightarrow>
          (if list_all (\<lambda>b. tl (shape b) = tl (shape a)) as
           then Inr \<lparr>shape = sum_list (map leading (a # as)) # tl (shape a),
                     flat = concat (map flat (a # as))\<rparr>
           else Inl ValueError))"

text \<open>\<^verbatim>\<open>pd.DataFrame(source_data)\<close>.\<close>

definition DataFrame :: "jvalue \<Rightarrow> error + table" where
  "DataFrame v = (case v of JNull \<Rightarrow> Inr [] | JStr _ \<Rightarrow> Inl ValueError | JRows rs \<Rightarrow> Inr rs)"

definition has_column :: "table \<Rightarrow> string \<Rightarrow> bool" where
  "has_column df c = list_ex (\<lambda>r. c \<in> set (map fst r)) df"

text \<open>\<^verbatim>\<open>df[c].values\<close>: \<^verbatim>\<open>KeyError\<close> when no row has the column.\<close>

definition column_values :: "table \<Rightarrow> string \<Rightarrow> error + cell list" where
  "column_values df c =
     (if has_column df c then Inr (map (\<lambda>r. dict_get r c NaN) df) else Inl KeyError)"

text \<open>
  \<^verbatim>\<open>df.astype(dtype=dtypes)\<close>: \<^verbatim>\<open>KeyError\<close> when a key of \<open>dtypes\<close> is not a column.
  The conversion of the values is taken to succeed and to leave the rows as they are.
\<close>

definition astype :: "table \<Rightarrow> string list \<Rightarrow> error + table" where
  "astype df dtypes = (if list_all (has_column df) dtypes then Inr df else Inl KeyError)"

text \<open>\<^verbatim>\<open>pd.concat(dfs, axis=0)\<close>: \<^verbatim>\<open>ValueError\<close> when there is nothing to concatenate.\<close>

definition pd_concat :: "table list \<Rightarrow> error + table" where
  "pd_concat dfs = (if dfs = [] then Inl ValueError else Inr (concat dfs))"

subsection \<open>\<^verbatim>\<open>get_features\<close>\<close>

text \<open>
  The remote catalog is a collaborator outside the module: \<open>kowalski_query\<close> is what
  \<^verbatim>\<open>kowalski_instances.query\<close> answers to a query, one response per instance name.
\<close>

type_synonym service = "query \<Rightarrow> (string \<times> response) list"

text \<open>
  The local variables of the \<^verbatim>\<open>while True\<close> loop. \<open>source_data\<close> is \<open>None\<close> while the
  Python variable is unbound. \<open>queries\<close> and \<open>dmdt_failed\<close> are not variables of the
  code: they record the queries sent to the service, in order, and the pages at which
  the \<^verbatim>\<open>except\<close> branch of the dmdt extraction ran.
\<close>

record fetch_state =
  page :: int
  source_data :: "jvalue option"
  df_collection :: "table list"
  dmdt_temp :: ndarray
  dmdt_collection :: "ndarray list"
  queries :: "query list"
  dmdt_failed :: "int list"

definition initial_state :: fetch_state where
  "initial_state =
     \<lparr>page = 0, source_data = None, df_collection = [], dmdt_temp = empty_list,
      dmdt_collection = [], queries = [], dmdt_failed = []\<rparr>"

text \<open>
  The \<^verbatim>\<open>for name in responses.keys()\<close> loop: a response that is not empty and whose
  status is \<^verbatim>\<open>"success"\<close> binds \<open>source_data\<close>, and raises when its data is \<^verbatim>\<open>None\<close>;
  any other response is passed over.
\<close>

fun scan_responses :: "(string \<times> response) list \<Rightarrow> jvalue option \<Rightarrow> error + jvalue option" where
  "scan_responses [] sd = Inr sd"
| "scan_responses ((name, response) # rest) sd =
     (if length response > 0 then
        (if dict_get response ''status'' (JStr ''error'') = JStr ''success'' then
           (let d = dict_get response ''data'' JNull
            in if d = JNull then Inl ValueError else scan_responses rest (Some d))
         else scan_responses rest sd)
      else scan_responses rest sd)"

text \<open>\<^verbatim>\<open>np.expand_dims(np.array([d for d in df_temp['dmdt'].values]), axis=-1)\<close>.\<close>

definition extract_dmdt :: "table \<Rightarrow> error + ndarray" where
  "extract_dmdt df_temp =
     (case column_values df_temp ''dmdt'' of
        Inl e \<Rightarrow> Inl e
      | Inr vs \<Rightarrow> (case np_array vs of Inl e \<Rightarrow> Inl e | Inr a \<Rightarrow> Inr (expand_dims_last a)))"

definition wants_dmdt :: "projection \<Rightarrow> bool" where
  "wants_dmdt projection = (projection = [] \<or> ''dmdt'' \<in> set (map fst projection))"

text \<open>One pass through the body of the loop, up to the test that ends it.\<close>

definition page_step ::
  "service \<Rightarrow> int list \<Rightarrow> string \<Rightarrow> int \<Rightarrow> string list \<Rightarrow> projection \<Rightarrow> fetch_state
     \<Rightarrow> error + fetch_state" where
  "page_step kowalski_query source_ids features_catalog limit_per_query dtypes projection st =
     (let q = \<lparr>catalog = features_catalog,
               ids_in = py_slice source_ids (page st * limit_per_query)
                          ((page st + 1) * limit_per_query),
               projection_of = projection\<rparr>;
          responses = kowalski_query q
      in case scan_responses responses (source_data st) of
           Inl e \<Rightarrow> Inl e
         | Inr None \<Rightarrow> Inl UnboundLocalError
         | Inr (Some v) \<Rightarrow>
             (case DataFrame v of
                Inl e \<Rightarrow> Inl e
              | Inr df0 \<Rightarrow>
                  (case (if wants_dmdt projection then astype df0 dtypes else Inr df0) of
                     Inl e \<Rightarrow> Inl e
                   | Inr df_temp \<Rightarrow>
                       (let ex = extract_dmdt df_temp;
                            dt = (case ex of Inl _ \<Rightarrow> dmdt_temp st | Inr a \<Rightarrow> a)
                        in Inr (st\<lparr>source_data := Some v,
                                   df_collection := df_collection st @ [df_temp],
                                   dmdt_temp := dt,
                                   dmdt_collection := dmdt_collection st @ [dt],
                                   queries := queries st @ [q],
                                   dmdt_failed := (case ex of Inl _ \<Rightarrow> dmdt_failed st @ [page st]
                                                   | Inr _ \<Rightarrow> dmdt_failed st)\<rparr>)))))"

text \<open>
  The loop itself. It ends at the \<^verbatim>\<open>break\<close> or at an exception. After \<^verbatim>\<open>id += 1\<close> the
  code computes \<^verbatim>\<open>(id * limit_per_query) % limit_per_query\<close> to decide whether to print,
  which raises for a page size of zero. With a page size below zero the loop ends only
  at an exception; when none comes it does not end, which is the value \<open>None\<close>.
\<close>

partial_function (option) fetch_pages ::
  "service \<Rightarrow> int list \<Rightarrow> string \<Rightarrow> int \<Rightarrow> string list \<Rightarrow> projection \<Rightarrow> fetch_state
     \<Rightarrow> (error + fetch_state) option" where
  "fetch_pages kowalski_query source_ids features_catalog limit_per_query dtypes projection st =
     (case page_step kowalski_query source_ids features_catalog limit_per_query dtypes projection st of
        Inl e \<Rightarrow> Some (Inl e)
      | Inr st' \<Rightarrow>
          (if (page st' + 1) * limit_per_query \<ge> int (length source_ids) then Some (Inr st')
           else if limit_per_query = 0 then Some (Inl ZeroDivisionError)
           else fetch_pages kowalski_query source_ids features_catalog limit_per_query dtypes
                  projection (st'\<lparr>page := page st' + 1\<rparr>)))"

declare fetch_pages.simps [code]

text \<open>
  What follows the loop. \<open>impute_features\<close> is \<^verbatim>\<open>scope.utils.impute_features\<close>, which
  is not part of this module and is a parameter. The metadata that the code attaches
  to the table and what it prints are left out.
\<close>

definition assemble ::
  "(table \<Rightarrow> bool \<Rightarrow> table) \<Rightarrow> bool \<Rightarrow> bool \<Rightarrow> fetch_state \<Rightarrow> error + table \<times> ndarray" where
  "assemble impute_features impute_missing_features self_impute st =
     (case pd_concat (df_collection st) of
        Inl e \<Rightarrow> Inl e
      | Inr df \<Rightarrow>
          (case vstack (dmdt_collection st) of
             Inl e \<Rightarrow> Inl e
           | Inr dmdt \<Rightarrow>
               Inr (if impute_missing_features then impute_features df self_impute else df, dmdt)))"

definition get_features ::
  "service \<Rightarrow> (table \<Rightarrow> bool \<Rightarrow> table) \<Rightarrow> string list \<Rightarrow> int list \<Rightarrow> string \<Rightarrow> int \<Rightarrow> bool \<Rightarrow> bool
     \<Rightarrow> projection \<Rightarrow> (error + table \<times> ndarray) option" where
  "get_features kowalski_query impute_features dtypes source_ids features_catalog limit_per_query
     impute_missing_features self_impute projection =
     (case fetch_pages kowalski_query source_ids features_catalog limit_per_query dtypes projection
             initial_state of
        None \<Rightarrow> None
      | Some (Inl e) \<Rightarrow> Some (Inl e)
      | Some (Inr st) \<Rightarrow> Some (assemble impute_features impute_missing_features self_impute st))"

subsection \<open>\<^verbatim>\<open>get_features_loop\<close>\<close>

text \<open>The keyword arguments of \<^verbatim>\<open>get_features_loop\<close> (\<^verbatim>\<open>verbose\<close> only prints).\<close>

record loop_args =
  features_catalog :: string
  whole_field :: bool
  field :: int
  ccd :: int
  quad :: int
  limit_per_query :: int
  max_sources :: int
  impute_missing_features :: bool
  self_impute :: bool
  restart :: bool
  write_csv :: bool
  projection :: projection
  suffix :: "string option"
  save :: bool

text \<open>
  The fetch function handed in as \<^verbatim>\<open>func\<close>, called with the chunk, the catalog, the
  page size, the two imputation flags and the projection. \<open>None\<close>: it does not return.
\<close>

type_synonym fetch =
  "int list \<Rightarrow> string \<Rightarrow> int \<Rightarrow> bool \<Rightarrow> bool \<Rightarrow> projection \<Rightarrow> (error + table \<times> ndarray) option"

text \<open>The path prefix; \<open>base_dir\<close> is \<^verbatim>\<open>os.path.dirname(__file__)\<close>.\<close>

definition outfile_path :: "string \<Rightarrow> loop_args \<Rightarrow> string" where
  "outfile_path base_dir a =
     (let outfile =
            (if \<not> whole_field a then
               base_dir @ ''/../features/field_'' @ str_int (field a) @ ''/ccd_''
                 @ zfill2 (str_int (ccd a)) @ ''_quad_'' @ str_int (quad a)
             else
               base_dir @ ''/../features/field_'' @ str_int (field a) @ ''/'' @ ''field_''
                 @ str_int (field a))
      in case suffix a of None \<Rightarrow> outfile | Some s \<Rightarrow> outfile @ ''_'' @ s)"

definition segment_name :: "string \<Rightarrow> int \<Rightarrow> string \<Rightarrow> string" where
  "segment_name outfile i ext = outfile @ ''_iter_'' @ str_int i @ ext"

text \<open>
  Modelled from the spec: \<^verbatim>\<open>scope.utils.write_parquet\<close> and the dataset reader are not
  in this module. The spec has the table written "as one output segment file" at the
  path, and the listing of the directory's files "used to reconstruct which identifiers
  were already fetched": the directory is the list of its files with their tables, a
  write puts the table at the path, in the place of what was there, and the identifier
  column read back is the \<^verbatim>\<open>_id\<close> of every row of every file.
\<close>

definition write_file :: "string \<Rightarrow> table \<Rightarrow> (string \<times> table) list \<Rightarrow> (string \<times> table) list" where
  "write_file path df files = AList.update path df files"

definition id_column :: "table \<Rightarrow> cell list" where
  "id_column df = map (\<lambda>r. dict_get r ''_id'' NaN) df"

definition read_ids :: "(string \<times> table) list \<Rightarrow> cell list" where
  "read_ids files = concat (map (\<lambda>f. id_column (snd f)) files)"

text \<open>
  The state of a run: the lines printed, the files of the output directory (segments
  and their csv duplicates), and the variable \<open>df\<close>, \<open>None\<close> while it is unbound.
  \<open>calls\<close> is not a variable of the code: it records the chunks handed to \<^verbatim>\<open>func\<close>.
\<close>

record loop_state =
  printed :: "string list"
  parquet_files :: "(string \<times> table) list"
  csv_files :: "(string \<times> table) list"
  calls :: "int list list"
  df :: "table option"

text \<open>\<open>existing_ids\<close> as it stands after the resume block.\<close>

definition existing_ids :: "loop_args \<Rightarrow> (string \<times> table) list \<Rightarrow> cell list" where
  "existing_ids a files =
     (if \<not> restart a \<and> length files > 0 then read_ids files else [])"

text \<open>\<^verbatim>\<open>list(set(source_ids) - set(existing_ids))\<close>, of which only the length is used.\<close>

definition todo_source_ids :: "int list \<Rightarrow> cell list \<Rightarrow> int list" where
  "todo_source_ids source_ids existing = filter (\<lambda>x. Num x \<notin> set existing) (remdups source_ids)"

definition n_iterations :: "int \<Rightarrow> int \<Rightarrow> int" where
  "n_iterations n_sources max_src =
     (if n_sources mod max_src \<noteq> 0 then n_sources div max_src + 1 else n_sources div max_src)"

definition start_iteration :: "cell list \<Rightarrow> int \<Rightarrow> int" where
  "start_iteration existing max_src = int (length existing) div max_src"

definition select_source_ids :: "int list \<Rightarrow> int \<Rightarrow> int \<Rightarrow> int list" where
  "select_source_ids source_ids max_src i =
     py_slice source_ids (i * max_src) (min (int (length source_ids)) ((i + 1) * max_src))"

text \<open>The call \<^verbatim>\<open>func(source_ids=select_source_ids, ...)\<close> of iteration \<open>i\<close>.\<close>

definition call_func :: "fetch \<Rightarrow> int list \<Rightarrow> loop_args \<Rightarrow> int \<Rightarrow> (error + table \<times> ndarray) option" where
  "call_func func source_ids a i =
     func (select_source_ids source_ids (max_sources a) i) (features_catalog a) (limit_per_query a)
       (impute_missing_features a) (self_impute a) (projection a)"

text \<open>The \<^verbatim>\<open>for\<close> loop over the iteration numbers. An exception of \<^verbatim>\<open>func\<close> ends it.\<close>

fun run_iterations ::
  "fetch \<Rightarrow> int list \<Rightarrow> loop_args \<Rightarrow> string \<Rightarrow> int \<Rightarrow> int list \<Rightarrow> loop_state
     \<Rightarrow> (loop_state \<times> error option) option" where
  "run_iterations func source_ids a outfile n_iter [] st = Some (st, None)"
| "run_iterations func source_ids a outfile n_iter (i # rest) st =
     (let st1 = st\<lparr>printed := printed st
                     @ [''Iteration '' @ str_int (i + 1) @ '' of '' @ str_int n_iter @ ''...'']\<rparr>;
          st2 = st1\<lparr>calls := calls st1 @ [select_source_ids source_ids (max_sources a) i]\<rparr>
      in case call_func func source_ids a i of
           None \<Rightarrow> None
         | Some (Inl e) \<Rightarrow> Some (st2, Some e)
         | Some (Inr (d, _)) \<Rightarrow>
             (let st3 = st2\<lparr>df := Some d\<rparr>;
                  st4 = (if save a
                         then st3\<lparr>parquet_files :=
                                    write_file (segment_name outfile i ''.parquet'') d
                                      (parquet_files st3)\<rparr>
                         else st3);
                  st5 = (if save a \<and> write_csv a
                         then st4\<lparr>csv_files :=
                                    write_file (segment_name outfile i ''.csv'') d (csv_files st4)\<rparr>
                         else st4)
              in run_iterations func source_ids a outfile n_iter rest st5))"

text \<open>
  The function. \<open>files\<close> and \<open>csvs\<close> are what the output directory holds when it is
  called. The result is the final state and what the call returns: an exception, \<open>None\<close>
  for the bare \<^verbatim>\<open>return\<close>, or the pair of \<open>df\<close> and the path prefix.
\<close>

definition get_features_loop ::
  "fetch \<Rightarrow> string \<Rightarrow> int list \<Rightarrow> loop_args \<Rightarrow> (string \<times> table) list \<Rightarrow> (string \<times> table) list
     \<Rightarrow> (loop_state \<times> (error + (table \<times> string) option)) option" where
  "get_features_loop func base_dir source_ids a files csvs =
     (let outfile = outfile_path base_dir a;
          st0 = \<lparr>printed = [], parquet_files = files, csv_files = csvs, calls = [], df = None\<rparr>;
          files_exist = (length files > 0);
          existing = existing_ids a files
      in if \<not> restart a \<and> files_exist \<and> length (todo_source_ids source_ids existing) = 0 then
           Some (st0\<lparr>printed := [''Dataset is already complete.'']\<rparr>, Inr None)
         else
           (let n_sources = int (length source_ids)
            in if max_sources a = 0 then Some (st0, Inl ZeroDivisionError)
               else
                 (let n_iter = n_iterations n_sources (max_sources a);
                      start = start_iteration existing (max_sources a)
                  in case run_iterations func source_ids a outfile n_iter [start..n_iter - 1] st0 of
                       None \<Rightarrow> None
                     | Some (st, Some e) \<Rightarrow> Some (st, Inl e)
                     | Some (st, None) \<Rightarrow>
                         (case df st of
                            None \<Rightarrow> Some (st, Inl UnboundLocalError)
                          | Some d \<Rightarrow> Some (st, Inr (Some (d, outfile)))))))"

subsection \<open>Example services and arguments\<close>

text \<open>An imputation that leaves the table as it is.\<close>

definition no_impute :: "table \<Rightarrow> bool \<Rightarrow> table" where
  "no_impute t self = t"

text \<open>A catalog that answers with one record for every identifier asked for, holding its \<^verbatim>\<open>_id\<close>.\<close>

definition complete_service :: service where
  "complete_service q =
     [(''kowalski'',
       [(''status'', JStr ''success''),
        (''data'', JRows (map (\<lambda>i. [(''_id'', Num i)]) (ids_in q)))])]"

text \<open>A catalog that answers the page \<^verbatim>\<open>[1]\<close> and reports an error for any other page.\<close>

definition error_after_first_service :: service where
  "error_after_first_service q =
     (if ids_in q = [1] then
        [(''kowalski'', [(''status'', JStr ''success''), (''data'', JRows [[(''_id'', Num 1)]])])]
      else
        [(''kowalski'', [(''status'', JStr ''error''), (''message'', JStr ''failure'')])])"

text \<open>A catalog whose record 1 has a dmdt histogram and whose other records have none.\<close>

definition dmdt_only_first_service :: service where
  "dmdt_only_first_service q =
     [(''kowalski'',
       [(''status'', JStr ''success''),
        (''data'', JRows (map (\<lambda>i. if i = 1 then [(''_id'', Num i), (''dmdt'', Arr [Arr [Num 5]])]
                                       else [(''_id'', Num i)]) (ids_in q)))])]"


text \<open>A catalog whose every record has its \<^verbatim>\<open>_id\<close> and a dmdt histogram of one row.\<close>

definition with_dmdt_service :: service where
  "with_dmdt_service q =
     [(''kowalski'',
       [(''status'', JStr ''success''),
        (''data'', JRows (map (\<lambda>i. [(''_id'', Num i), (''dmdt'', Arr [Arr [Num i, Num 0]])])
                            (ids_in q)))])]"

definition example_args :: loop_args where
  "example_args =
     \<lparr>features_catalog = ''ZTF_source_features_DR5'', whole_field = True, field = 291, ccd = 1,
      quad = 1, limit_per_query = 10, max_sources = 2, impute_missing_features = False,
      self_impute = True, restart = True, write_csv = False, projection = [(''_id'', 1)],
      suffix = None, save = True\<rparr>"


subsection \<open>An invariant of the paging loop\<close>

text \<open>
  The page tables and the dmdt slabs collected so far go together: each slab has as
  many entries along its first axis as its table has rows, and at least two axes.
\<close>

definition aligned :: "fetch_state \<Rightarrow> bool" where
  "aligned st =
     list_all2 (\<lambda>t a. leading a = length t \<and> 2 \<le> length (shape a))
       (df_collection st) (dmdt_collection st)"





section \<open>Properties\<close>

subsection \<open>Strings and slices\<close>














subsection \<open>The paging loop\<close>






subsection \<open>Failures of the service and of the dmdt extraction\<close>

text \<open>
  Claim C1. The claim has \<^verbatim>\<open>get_features\<close> raise as soon as the service reports a status
  other than success for a page, and the loop write no segment for the chunk. On the
  identifiers \<open>[1, 2]\<close> with pages of one identifier, when the service answers the first
  page and reports an error for the second, the code does not raise: the response is
  passed over, \<open>source_data\<close> still holds the records of the first page, the call returns
  a table with the record of identifier 1 twice, and the loop writes it as segment 0.
\<close>

theorem C1_error_status_reuses_previous_page:
  "get_features error_after_first_service no_impute [] [1, 2] ''ZTF_source_features_DR5'' 1
     False True [(''_id'', 1)]
   = Some (Inr ([[(''_id'', Num 1)], [(''_id'', Num 1)]], \<lparr>shape = [2, 0], flat = []\<rparr>))
   \<and> get_features_loop (get_features error_after_first_service no_impute []) ''tools'' [1, 2]
       (example_args\<lparr>limit_per_query := 1\<rparr>) [] []
   = Some (\<lparr>printed = [''Iteration 1 of 1...''],
            parquet_files = [(''tools/../features/field_291/field_291_iter_0.parquet'',
                              [[(''_id'', Num 1)], [(''_id'', Num 1)]])],
            csv_files = [], calls = [[1, 2]],
            df = Some [[(''_id'', Num 1)], [(''_id'', Num 1)]]\<rparr>,
           Inr (Some ([[(''_id'', Num 1)], [(''_id'', Num 1)]],
                      ''tools/../features/field_291/field_291'')))"
  by code_simp

text \<open>
  Claim C2. The claim has the dmdt array hold an empty placeholder where the extraction
  of a page raised. When the second of two pages has no dmdt column, \<open>dmdt_temp\<close> still
  holds the slab of the first page and that slab is appended a second time; when it is
  the first page that has none, the stacking of the list \<^verbatim>\<open>[]\<close> with a four-dimensional
  slab raises and the call returns nothing.
\<close>

theorem C2_failed_extraction_repeats_previous_slab:
  "get_features dmdt_only_first_service no_impute [''_id''] [1, 2] ''ZTF_source_features_DR5'' 1
     False True []
   = Some (Inr ([[(''_id'', Num 1), (''dmdt'', Arr [Arr [Num 5]])], [(''_id'', Num 2)]],
                \<lparr>shape = [2, 1, 1, 1], flat = [Num 5, Num 5]\<rparr>))
   \<and> get_features dmdt_only_first_service no_impute [''_id''] [2, 1] ''ZTF_source_features_DR5'' 1
     False True []
   = Some (Inl ValueError)"
  by code_simp

lemma cell_shape_Arr: "cell_shape (Arr cs) = Some s \<Longrightarrow> s \<noteq> [] \<and> hd s = length cs"
  by (cases cs) (auto split: list.splits option.splits if_splits)

lemma extract_dmdt_Inr:
  assumes "extract_dmdt t = Inr a"
  shows "leading a = length t \<and> 2 \<le> length (shape a)"
proof -
  from assms obtain vs b where vs: "column_values t ''dmdt'' = Inr vs"
    and b: "np_array vs = Inr b" and a: "a = expand_dims_last b"
    by (auto simp: extract_dmdt_def split: sum.splits)
  from vs have l: "length vs = length t"
    by (auto simp: column_values_def split: if_splits)
  from b have "cell_shape (Arr vs) = Some (shape b)"
    by (auto simp: np_array_def split: option.splits)
  from cell_shape_Arr [OF this] l have "shape b \<noteq> []" "hd (shape b) = length t" by simp_all
  then show ?thesis unfolding a
    by (cases "shape b") (simp_all add: expand_dims_last_def leading_def)
qed

lemma vstack_leading:
  assumes "list_all (\<lambda>a. 2 \<le> length (shape a)) arrs" and "vstack arrs = Inr d"
  shows "leading d = sum_list (map leading arrs)"
proof -
  have "atleast_2d a = a" if "2 \<le> length (shape a)" for a
    using that by (cases "shape a"; cases "tl (shape a)") (auto simp: atleast_2d_def split: list.splits)
  then have "map atleast_2d arrs = arrs"
    using assms(1) by (simp add: list_all_iff map_idI)
  with assms(2) show ?thesis
    by (auto simp: vstack_def leading_def split: list.splits if_splits)
qed

lemma aligned_sum:
  "list_all2 (\<lambda>t a. leading a = length t \<and> 2 \<le> length (shape a)) dfs arrs \<Longrightarrow>
     sum_list (map leading arrs) = length (concat dfs) \<and> list_all (\<lambda>a. 2 \<le> length (shape a)) arrs"
  by (induction rule: list_all2_induct) simp_all

lemma page_step_dmdt:
  assumes "page_step svc ids cat L dtypes proj st = Inr st'" and "dmdt_failed st' = []"
  shows "dmdt_failed st = [] \<and>
         (\<exists>t a. df_collection st' = df_collection st @ [t] \<and>
                dmdt_collection st' = dmdt_collection st @ [a] \<and> extract_dmdt t = Inr a)"
  using assms unfolding page_step_def Let_def
  by (auto split: sum.splits option.splits if_splits)

lemma page_step_aligned:
  assumes "page_step svc ids cat L dtypes proj st = Inr st'" and "dmdt_failed st' = []"
    and "aligned st"
  shows "aligned st'"
proof -
  from page_step_dmdt [OF assms(1,2)] obtain t a where
    "df_collection st' = df_collection st @ [t]"
    "dmdt_collection st' = dmdt_collection st @ [a]" "extract_dmdt t = Inr a" by blast
  with assms(3) extract_dmdt_Inr [of t a] show ?thesis
    by (simp add: aligned_def list_all2_appendI)
qed

lemma fetch_pages_aligned:
  assumes "fetch_pages svc ids cat L dtypes proj st = Some out"
  shows "\<forall>st'. out = Inr st' \<longrightarrow> dmdt_failed st' = [] \<longrightarrow>
           dmdt_failed st = [] \<and> (aligned st \<longrightarrow> aligned st')"
proof (rule fetch_pages.raw_induct
    [where P = "\<lambda>svc ids cat L dtypes proj st out.
       \<forall>st'. out = Inr st' \<longrightarrow> dmdt_failed st' = [] \<longrightarrow>
           dmdt_failed st = [] \<and> (aligned st \<longrightarrow> aligned st')", OF _ assms])
  fix f :: "service \<Rightarrow> int list \<Rightarrow> string \<Rightarrow> int \<Rightarrow> string list \<Rightarrow> projection \<Rightarrow> fetch_state
     \<Rightarrow> (error + fetch_state) option"
  fix svc ids cat L dtypes proj st out
  assume ih: "\<And>svc ids cat L dtypes proj st out. f svc ids cat L dtypes proj st = Some out \<Longrightarrow>
       \<forall>st'. out = Inr st' \<longrightarrow> dmdt_failed st' = [] \<longrightarrow>
           dmdt_failed st = [] \<and> (aligned st \<longrightarrow> aligned st')"
  assume body: "(case page_step svc ids cat L dtypes proj st of
        Inl e \<Rightarrow> Some (Inl e)
      | Inr st' \<Rightarrow>
          if int (length ids) \<le> (page st' + 1) * L then Some (Inr st')
          else if L = 0 then Some (Inl ZeroDivisionError)
          else f svc ids cat L dtypes proj (st'\<lparr>page := page st' + 1\<rparr>)) = Some out"
  show "\<forall>st'. out = Inr st' \<longrightarrow> dmdt_failed st' = [] \<longrightarrow>
           dmdt_failed st = [] \<and> (aligned st \<longrightarrow> aligned st')"
  proof (intro allI impI)
    fix st'
    assume o: "out = Inr st'" and d: "dmdt_failed st' = []"
    from body o obtain st1 where s: "page_step svc ids cat L dtypes proj st = Inr st1"
      by (auto split: sum.splits)
    show "dmdt_failed st = [] \<and> (aligned st \<longrightarrow> aligned st')"
    proof (cases "int (length ids) \<le> (page st1 + 1) * L")
      case True
      with body s o have "st' = st1" by simp
      with d page_step_dmdt [OF s] page_step_aligned [OF s] show ?thesis by blast
    next
      case False
      let ?st2 = "st1\<lparr>page := page st1 + 1\<rparr>"
      from False body s o have r: "f svc ids cat L dtypes proj ?st2 = Some out"
        by (cases "L = 0") simp_all
      from ih [OF r] o d have i: "dmdt_failed ?st2 = []" "aligned ?st2 \<longrightarrow> aligned st'" by blast+
      from i(1) have d1: "dmdt_failed st1 = []" by simp
      have "aligned ?st2 = aligned st1" by (simp add: aligned_def)
      with i(2) d1 page_step_dmdt [OF s] page_step_aligned [OF s] show ?thesis by blast
    qed
  qed
qed

text \<open>
  Claim C8, as the claim states it, fails: with a projection that leaves dmdt out, the
  extraction raises at the one page, the list \<^verbatim>\<open>[]\<close> is stacked into an array of shape
  \<open>(1, 0)\<close>, and the table has two rows.
\<close>

theorem C8_rows_and_dmdt_differ:
  "get_features complete_service no_impute [] [1, 2] ''ZTF_source_features_DR5'' 10
     False True [(''_id'', 1)]
   = Some (Inr ([[(''_id'', Num 1)], [(''_id'', Num 2)]], \<lparr>shape = [1, 0], flat = []\<rparr>))
   \<and> length [[(''_id'', Num 1)], [(''_id'', Num 2)]] = 2
   \<and> leading \<lparr>shape = [1, 0], flat = []\<rparr> = 1"
  by code_simp

text \<open>
  Claim C8, amended. After a successful call of \<^verbatim>\<open>get_features\<close> in which the dmdt
  extraction raised at no page, the number of rows of the returned table is the leading
  dimension of the returned dmdt array, provided the imputation, when it is asked for,
  keeps the number of rows.
\<close>

theorem C8_rows_match_dmdt_when_extracted:
  assumes "get_features svc impute dtypes ids cat page_size impute_missing self proj
             = Some (Inr (tbl, dmdt))"
    and "\<forall>st. fetch_pages svc ids cat page_size dtypes proj initial_state = Some (Inr st)
            \<longrightarrow> dmdt_failed st = []"
    and "impute_missing \<longrightarrow> (\<forall>t. length (impute t self) = length t)"
  shows "length tbl = leading dmdt"
proof -
  from assms(1) obtain st where
    f: "fetch_pages svc ids cat page_size dtypes proj initial_state = Some (Inr st)"
    and a: "assemble impute impute_missing self st = Inr (tbl, dmdt)"
    by (auto simp: get_features_def split: option.splits sum.splits)
  from assms(2) f have d: "dmdt_failed st = []" by blast
  have "aligned initial_state" by (simp add: aligned_def initial_state_def)
  with fetch_pages_aligned [OF f] d have "aligned st" by blast
  from aligned_sum [OF this [unfolded aligned_def]]
  have s: "sum_list (map leading (dmdt_collection st)) = length (concat (df_collection st))"
    and l: "list_all (\<lambda>a. 2 \<le> length (shape a)) (dmdt_collection st)" by blast+
  from a obtain t0 where t0: "pd_concat (df_collection st) = Inr t0"
    and v: "vstack (dmdt_collection st) = Inr dmdt"
    and t: "tbl = (if impute_missing then impute t0 self else t0)"
    by (auto simp: assemble_def split: sum.splits)
  from t0 have "t0 = concat (df_collection st)" by (auto simp: pd_concat_def split: if_splits)
  with vstack_leading [OF l v] s have "leading dmdt = length t0" by simp
  with t assms(3) show ?thesis by auto
qed

theorem C8_rows_match_dmdt_when_extracted_witness:
  "get_features with_dmdt_service no_impute [''_id'', ''dmdt''] [1, 2, 3]
      ''ZTF_source_features_DR5'' 2 False True []
    = Some (Inr ([[(''_id'', Num 1), (''dmdt'', Arr [Arr [Num 1, Num 0]])],
                  [(''_id'', Num 2), (''dmdt'', Arr [Arr [Num 2, Num 0]])],
                  [(''_id'', Num 3), (''dmdt'', Arr [Arr [Num 3, Num 0]])]],
                 \<lparr>shape = [3, 1, 2, 1], flat = [Num 1, Num 0, Num 2, Num 0, Num 3, Num 0]\<rparr>))
   \<and> map_option (map_sum id dmdt_failed)
        (fetch_pages with_dmdt_service [1, 2, 3] ''ZTF_source_features_DR5'' 2 [''_id'', ''dmdt'']
           [] initial_state) = Some (Inr [])
   \<and> length [[(''_id'', Num 1), (''dmdt'', Arr [Arr [Num 1, Num 0]])],
              [(''_id'', Num 2), (''dmdt'', Arr [Arr [Num 2, Num 0]])],
              [(''_id'', Num 3), (''dmdt'', Arr [Arr [Num 3, Num 0]])]]
       = leading \<lparr>shape = [3, 1, 2, 1], flat = [Num 1, Num 0, Num 2, Num 0, Num 3, Num 0]\<rparr>"
proof -
  have h1: "get_features with_dmdt_service no_impute [''_id'', ''dmdt''] [1, 2, 3]
      ''ZTF_source_features_DR5'' 2 False True []
    = Some (Inr ([[(''_id'', Num 1), (''dmdt'', Arr [Arr [Num 1, Num 0]])],
                  [(''_id'', Num 2), (''dmdt'', Arr [Arr [Num 2, Num 0]])],
                  [(''_id'', Num 3), (''dmdt'', Arr [Arr [Num 3, Num 0]])]],
                 \<lparr>shape = [3, 1, 2, 1], flat = [Num 1, Num 0, Num 2, Num 0, Num 3, Num 0]\<rparr>))"
    by code_simp
  have e: "map_option (map_sum id dmdt_failed)
        (fetch_pages with_dmdt_service [1, 2, 3] ''ZTF_source_features_DR5'' 2 [''_id'', ''dmdt'']
           [] initial_state) = Some (Inr [])"
    by code_simp
  then have h2: "\<forall>st. fetch_pages with_dmdt_service [1, 2, 3] ''ZTF_source_features_DR5'' 2
           [''_id'', ''dmdt''] [] initial_state = Some (Inr st) \<longrightarrow> dmdt_failed st = []"
    by auto
  have h3: "False \<longrightarrow> (\<forall>t. length (no_impute t True) = length t)" by simp
  from C8_rows_match_dmdt_when_extracted [OF h1 h2 h3] h1 e show ?thesis by simp
qed

subsection \<open>The loop over the chunks\<close>












subsection \<open>The function \<^verbatim>\<open>get_features_loop\<close>\<close>






subsection \<open>Chunk arithmetic\<close>








subsection \<open>The chunks of a run\<close>






subsection \<open>Resuming\<close>












end
